theory Spec2Isabelle
  imports Complex_Main "HOL-Library.AList" "HOL-Library.Sublist"
begin

section \<open>Values read from the media server\<close>

text \<open>
  A Python float is an IEEE double. \<open>Finite x\<close> carries the exact value of a finite
  double; the two infinities and the not-a-number value are kept apart because every
  comparison with them is decided without arithmetic.
\<close>

datatype pyfloat = Finite real | PosInf | NegInf | NaN

text \<open>
  An XML attribute as the poller and the harvest worker read it with \<open>attrib.get\<close>:
  missing (\<open>None\<close>), the empty string, a non-empty string that \<open>float()\<close> rejects
  with \<open>ValueError\<close>, or a non-empty string that \<open>float()\<close> accepts.
\<close>

datatype attr = Absent | Blank | Garbled | Numeric pyfloat

datatype bucket = Like | Dislike

subsection \<open>Rating normalisation\<close>

text \<open>
  \<open>abs(f - c) < 0.1\<close>. For a finite double the difference is computed exactly wherever
  the test can succeed (the operands are within a factor of two of each other), and no
  such difference lies between one tenth and the double written \<open>0.1\<close>, so the test on
  exact values decides as the float test does. An infinity or a NaN fails every test.
\<close>

fun near :: "pyfloat \<Rightarrow> real \<Rightarrow> bool" where
  "near (Finite x) c = (\<bar>x - c\<bar> < 1 / 10)"
| "near PosInf c = False"
| "near NegInf c = False"
| "near NaN c = False"

fun normalize_rating :: "attr \<Rightarrow> bucket option" where
  "normalize_rating Absent = None"
| "normalize_rating Blank = None"
| "normalize_rating Garbled = None"
| "normalize_rating (Numeric f) =
     (if near f 10 \<or> near f 5 then Some Like
      else if near f 2 \<or> near f 1 then Some Dislike
      else None)"


section \<open>The library service\<close>

subsection \<open>Python helpers on strings\<close>

text \<open>
  \<open>x or ""\<close>, and \<open>d.get(key, "")\<close> for a field that holds a string when present.
\<close>

fun or_empty :: "string option \<Rightarrow> string" where
  "or_empty None = []"
| "or_empty (Some s) = s"

text \<open>Truth value of an optional string: \<open>None\<close> and the empty string are false.\<close>

fun truthy :: "string option \<Rightarrow> bool" where
  "truthy None = False"
| "truthy (Some s) = (s \<noteq> [])"

text \<open>
  \<open>str.lower()\<close>, on ASCII text: the letters \<open>A\<close> to \<open>Z\<close> (codes 65 to 90) move up by
  32, which sets the bit of weight 32, clear in all of them.
\<close>

definition lower_char :: "char \<Rightarrow> char" where
  "lower_char c =
     (let n = (of_char c :: nat)
      in if 65 \<le> n \<and> n \<le> 90
         then (case c of Char b0 b1 b2 b3 b4 b5 b6 b7 \<Rightarrow> Char b0 b1 b2 b3 b4 True b6 b7)
         else c)"

definition py_lower :: "string \<Rightarrow> string" where
  "py_lower s = map lower_char s"

text \<open>\<open>needle in hay\<close> on strings: the needle occurs as a contiguous run.\<close>

fun py_in :: "'a list \<Rightarrow> 'a list \<Rightarrow> bool" where
  "py_in needle [] = (needle = [])"
| "py_in needle (h # hs) = (prefix needle (h # hs) \<or> py_in needle hs)"

text \<open>An exception that leaves a function of the program.\<close>

datatype py_error = AttributeError

text \<open>
  \<open>max(items, key=key)\<close> on a non-empty list \<open>first # rest\<close>: the key of every item
  is computed once, in order, and an exception in it ends the search; the running best
  is replaced only by an item with a strictly larger key.
\<close>

fun max_loop :: "('a \<Rightarrow> py_error + int) \<Rightarrow> 'a \<Rightarrow> int \<Rightarrow> 'a list \<Rightarrow> py_error + 'a" where
  "max_loop key best best_key [] = Inr best"
| "max_loop key best best_key (x # xs) =
     (case key x of
        Inl e \<Rightarrow> Inl e
      | Inr k \<Rightarrow> if best_key < k then max_loop key x k xs else max_loop key best best_key xs)"

definition py_max :: "('a \<Rightarrow> py_error + int) \<Rightarrow> 'a \<Rightarrow> 'a list \<Rightarrow> py_error + 'a" where
  "py_max key first rest =
     (case key first of Inl e \<Rightarrow> Inl e | Inr k \<Rightarrow> max_loop key first k rest)"

text \<open>The same search for a key that cannot raise: the first item of greatest key.\<close>

fun max_from :: "('a \<Rightarrow> int) \<Rightarrow> 'a \<Rightarrow> 'a list \<Rightarrow> 'a" where
  "max_from key best [] = best"
| "max_from key best (x # xs) = max_from key (if key best < key x then x else best) xs"

subsection \<open>Match scoring\<close>

text \<open>
  A candidate is an element of a search result that the scoring can read: a JSON object
  whose \<open>album\<close>, when present, is an object. \<open>cand_title\<close> and \<open>cand_artistName\<close> are
  \<open>None\<close> when the key is missing and otherwise the text \<open>str()\<close> makes of the value
  (the string itself, for a string); \<open>cand_album_title\<close> likewise, and \<open>None\<close> also
  when the album is missing (both read as the empty string); \<open>cand_id\<close> is \<open>None\<close>
  when the id is missing or null; \<open>cand_hasFile\<close> is the truth value of
  \<open>hit.get("hasFile")\<close>.
\<close>

record candidate =
  cand_id :: "int option"
  cand_title :: "string option"
  cand_artistName :: "string option"
  cand_album_title :: "string option"
  cand_hasFile :: bool

definition candidate_score :: "candidate \<Rightarrow> string \<Rightarrow> string \<Rightarrow> string \<Rightarrow> int" where
  "candidate_score hit artist_lower track_lower album_lower =
     (let hit_title = py_lower (or_empty (cand_title hit));
          hit_artist = py_lower (or_empty (cand_artistName hit));
          hit_album = py_lower (or_empty (cand_album_title hit))
      in (if artist_lower \<noteq> [] \<and> py_in artist_lower hit_artist then 2 else 0)
       + (if track_lower \<noteq> [] \<and> py_in track_lower hit_title then 2 else 0)
       + (if album_lower \<noteq> [] \<and> py_in album_lower hit_album then 2 else 0)
       + (if cand_hasFile hit then 1 else 0))"

text \<open>
  An element of a result list as the service may send it. \<open>Misshapen\<close> is an element
  on which the scoring raises \<open>AttributeError\<close>: one that is no object (a null, a
  number, a string, a list), for which \<open>hit.get\<close> does not exist, or an object whose
  \<open>album\<close> is present and no object (a null, a string), for which the second \<open>.get\<close>
  does not exist.
\<close>

datatype item = Candidate candidate | Misshapen

fun score_lidarr_candidate :: "item \<Rightarrow> string \<Rightarrow> string \<Rightarrow> string \<Rightarrow> py_error + int" where
  "score_lidarr_candidate (Candidate hit) artist_lower track_lower album_lower =
     Inr (candidate_score hit artist_lower track_lower album_lower)"
| "score_lidarr_candidate Misshapen artist_lower track_lower album_lower = Inl AttributeError"

subsection \<open>The outside world\<close>

text \<open>
  What the service answers to one search: the request raised, or a status code with a
  body that is not JSON, JSON but not a list, or a list.
\<close>

datatype lidarr_body = Not_json | Json_other | Json_list "item list"

datatype lidarr_reply = Lookup_raised | Lookup_response nat lidarr_body

datatype delete_reply = Delete_raised | Delete_response nat

text \<open>One \<open><Track>\<close> element of a media-server document, by its attributes.\<close>

record track_el =
  el_grandparentTitle :: "string option"
  el_parentTitle :: "string option"
  el_title :: "string option"
  el_guid :: "string option"
  el_ratingKey :: "string option"
  el_viewOffset :: attr
  el_duration :: attr
  el_userRating :: attr

text \<open>
  A media-server answer: the request raised, or a status code with a body that fails
  to parse as XML or parses to a tree with these \<open><Track>\<close> descendants, in document
  order.
\<close>

datatype xml_body = Malformed_xml | Xml "track_el list"

datatype plex_reply = Plex_raised | Plex_response nat xml_body

text \<open>
  \<open>_save_json_file\<close> swallows every exception. \<open>Open_failed\<close>: \<open>open(path, "w")\<close>
  raised, the file is as it was. \<open>Write_failed\<close>: \<open>json.dump\<close> raised after the file was
  truncated, which leaves a strict prefix of a JSON object or nothing, never a
  decodable document.
\<close>

datatype save_outcome = Saved | Open_failed | Write_failed

record env =
  LIDARR_URL :: "string option"
  LIDARR_API_KEY :: "string option"
  lidarr_lookup :: "string \<Rightarrow> lidarr_reply"
  lidarr_delete :: "int \<Rightarrow> delete_reply"
  plex_metadata :: "string \<Rightarrow> plex_reply"
  save_result :: save_outcome
  utc_now :: string

text \<open>
  The two preference documents, as decoded JSON: an object from artist to entry. A
  decodable file is taken to have the shape in which this program writes it; a file
  edited by hand into another shape is not modelled.
\<close>

record like_entry =
  tracks :: "string option list"
  last_seen :: "string option"

record dislike_entry = like_entry +
  ban_artist :: bool

type_synonym liked_doc = "string \<Rightarrow> like_entry option"

type_synonym disliked_doc = "string \<Rightarrow> dislike_entry option"

datatype store_path = LIKED_PATH | DISLIKED_PATH

text \<open>Everything the program does to the outside, in the order it does it.\<close>

datatype event =
    File_save store_path
  | Lidarr_search string
  | Lidarr_delete int
  | Plex_metadata string

text \<open>
  A file is \<open>None\<close> when it does not exist or does not decode; \<open>_load_json_file\<close>
  reads both as the empty object.
\<close>

record world =
  liked_file :: "liked_doc option"
  disliked_file :: "disliked_doc option"
  trace :: "event list"

definition emit :: "event \<Rightarrow> world \<Rightarrow> world" where
  "emit e w = w\<lparr>trace := trace w @ [e]\<rparr>"

subsection \<open>Lookup, delete and purge\<close>

text \<open>\<open>guid_raw.split("/")[-1]\<close>: what follows the last slash.\<close>

definition guid_tail :: "string \<Rightarrow> string" where
  "guid_tail s = rev (takeWhile (\<lambda>c. c \<noteq> CHR ''/'') (rev s))"

definition search_terms ::
  "string option \<Rightarrow> string option \<Rightarrow> string option \<Rightarrow> string option \<Rightarrow> string list" where
  "search_terms artist_name track_title album_title guid_raw =
     (let t1 = (if truthy artist_name \<and> truthy track_title
                then [or_empty artist_name @ '' '' @ or_empty track_title] else []);
          t2 = t1 @ (if truthy artist_name \<and> truthy album_title
                then [or_empty artist_name @ '' '' @ or_empty album_title] else []);
          t3 = t2 @ (if truthy track_title then [or_empty track_title] else []);
          t4 = t3 @ (if truthy album_title \<and> truthy artist_name
                then [or_empty album_title @ '' '' @ or_empty artist_name] else [])
      in if truthy guid_raw
         then (let tail = guid_tail (or_empty guid_raw)
               in if tail \<noteq> [] \<and> tail \<notin> set t4 then t4 @ [tail] else t4)
         else t4)"

record match =
  match_id :: int
  match_title :: "string option"
  match_artistName :: "string option"

text \<open>
  The body of the loop over search terms, after the request is sent: \<open>Inr None\<close> is
  \<open>continue\<close>, \<open>Inr (Some m)\<close> is \<open>return m\<close>, \<open>Inl e\<close> is an exception that no
  handler in the loop catches. The three handled failures (the request raising, a
  status other than 200, a body that is not JSON) and an empty or non-list body
  continue. The fields of the best item are first read by the log line; a misshapen
  item never gets there, since its key has raised inside \<open>max\<close>.
\<close>

definition try_reply ::
  "lidarr_reply \<Rightarrow> string \<Rightarrow> string \<Rightarrow> string \<Rightarrow> py_error + match option" where
  "try_reply reply artist_lower track_lower album_lower =
     (case reply of
        Lookup_raised \<Rightarrow> Inr None
      | Lookup_response status body \<Rightarrow>
          if status \<noteq> 200 then Inr None
          else (case body of
                  Not_json \<Rightarrow> Inr None
                | Json_other \<Rightarrow> Inr None
                | Json_list [] \<Rightarrow> Inr None
                | Json_list (first # rest) \<Rightarrow>
                    (let key = (\<lambda>h. score_lidarr_candidate h artist_lower track_lower
                                  album_lower)
                     in case py_max key first rest of
                          Inl e \<Rightarrow> Inl e
                        | Inr Misshapen \<Rightarrow> Inl AttributeError
                        | Inr (Candidate best) \<Rightarrow>
                            (case key (Candidate best) of
                               Inl e \<Rightarrow> Inl e
                             | Inr best_score \<Rightarrow>
                                 if 2 \<le> best_score \<and> cand_id best \<noteq> None
                                 then Inr (Some \<lparr>match_id = the (cand_id best),
                                                 match_title = cand_title best,
                                                 match_artistName = cand_artistName best\<rparr>)
                                 else Inr None))))"

fun lookup_loop ::
  "env \<Rightarrow> string \<Rightarrow> string \<Rightarrow> string \<Rightarrow> string list \<Rightarrow> world
     \<Rightarrow> (py_error + match option) \<times> world" where
  "lookup_loop env artist_lower track_lower album_lower [] w = (Inr None, w)"
| "lookup_loop env artist_lower track_lower album_lower (q # qs) w =
     (let w1 = emit (Lidarr_search q) w
      in case try_reply (lidarr_lookup env q) artist_lower track_lower album_lower of
           Inr None \<Rightarrow> lookup_loop env artist_lower track_lower album_lower qs w1
         | outcome \<Rightarrow> (outcome, w1))"

definition lidarr_configured :: "env \<Rightarrow> bool" where
  "lidarr_configured env = (truthy (LIDARR_URL env) \<and> truthy (LIDARR_API_KEY env))"

definition lidarr_track_lookup_multi ::
  "env \<Rightarrow> string option \<Rightarrow> string option \<Rightarrow> string option \<Rightarrow> string option \<Rightarrow> world
     \<Rightarrow> (py_error + match option) \<times> world" where
  "lidarr_track_lookup_multi env artist_name track_title album_title guid_raw w =
     (if \<not> lidarr_configured env then (Inr None, w)
      else lookup_loop env
             (py_lower (or_empty artist_name))
             (py_lower (or_empty track_title))
             (py_lower (or_empty album_title))
             (search_terms artist_name track_title album_title guid_raw) w)"

definition lidarr_delete_track :: "env \<Rightarrow> int \<Rightarrow> world \<Rightarrow> bool \<times> world" where
  "lidarr_delete_track env track_id w =
     (if \<not> lidarr_configured env then (False, w)
      else (let w1 = emit (Lidarr_delete track_id) w
            in case lidarr_delete env track_id of
                 Delete_raised \<Rightarrow> (False, w1)
               | Delete_response status \<Rightarrow> (status = 200 \<or> status = 202 \<or> status = 204, w1)))"

text \<open>
  The purge has no handler of its own: an exception of the lookup leaves it, and then
  no delete request is made.
\<close>

definition purge_with_lidarr ::
  "env \<Rightarrow> string option \<Rightarrow> string option \<Rightarrow> string option \<Rightarrow> string option \<Rightarrow> world
     \<Rightarrow> (py_error + unit) \<times> world" where
  "purge_with_lidarr env artist_name track_title album_title guid_raw w =
     (case lidarr_track_lookup_multi env artist_name track_title album_title guid_raw w of
        (Inl e, w1) \<Rightarrow> (Inl e, w1)
      | (Inr None, w1) \<Rightarrow> (Inr (), w1)
      | (Inr (Some m), w1) \<Rightarrow> (Inr (), snd (lidarr_delete_track env (match_id m) w1)))"


section \<open>The preference store\<close>

definition load_json_file :: "('k \<Rightarrow> 'e option) option \<Rightarrow> ('k \<Rightarrow> 'e option)" where
  "load_json_file file = (case file of None \<Rightarrow> Map.empty | Some doc \<Rightarrow> doc)"

definition save_json_file :: "save_outcome \<Rightarrow> 'd \<Rightarrow> 'd option \<Rightarrow> 'd option" where
  "save_json_file outcome data file =
     (case outcome of Saved \<Rightarrow> Some data | Open_failed \<Rightarrow> file | Write_failed \<Rightarrow> None)"

text \<open>
  \<open>doc.get(artist, default)\<close> on a decoded document, whose keys are all strings: the
  key \<open>None\<close> is never found. \<open>json.dump\<close> writes the key \<open>None\<close> as \<open>"null"\<close>, after
  the other keys, so on the next load it has replaced an entry stored under \<open>"null"\<close>.
\<close>

definition dict_get :: "(string \<Rightarrow> 'e option) \<Rightarrow> string option \<Rightarrow> 'e \<Rightarrow> 'e" where
  "dict_get doc artist dflt =
     (case artist of None \<Rightarrow> dflt | Some a \<Rightarrow> (case doc a of None \<Rightarrow> dflt | Some e \<Rightarrow> e))"

fun json_key :: "string option \<Rightarrow> string" where
  "json_key None = ''null''"
| "json_key (Some a) = a"

definition append_new :: "'a \<Rightarrow> 'a list \<Rightarrow> 'a list" where
  "append_new track ts = (if track \<in> set ts then ts else ts @ [track])"

definition add_like :: "env \<Rightarrow> string option \<Rightarrow> string option \<Rightarrow> world \<Rightarrow> world" where
  "add_like env artist track w =
     (let liked = load_json_file (liked_file w);
          entry = dict_get liked artist \<lparr>tracks = [], last_seen = None\<rparr>;
          entry1 = entry\<lparr>tracks := append_new track (tracks entry)\<rparr>;
          entry2 = entry1\<lparr>last_seen := Some (utc_now env)\<rparr>;
          liked1 = liked(json_key artist \<mapsto> entry2)
      in emit (File_save LIKED_PATH)
           (w\<lparr>liked_file := save_json_file (save_result env) liked1 (liked_file w)\<rparr>))"

definition add_dislike :: "env \<Rightarrow> string option \<Rightarrow> string option \<Rightarrow> bool \<Rightarrow> world \<Rightarrow> world" where
  "add_dislike env artist track ban w =
     (let disliked = load_json_file (disliked_file w);
          entry = dict_get disliked artist \<lparr>tracks = [], last_seen = None, ban_artist = False\<rparr>;
          entry1 = entry\<lparr>tracks := append_new track (tracks entry)\<rparr>;
          entry2 = (if ban then entry1\<lparr>ban_artist := True\<rparr> else entry1);
          entry3 = entry2\<lparr>last_seen := Some (utc_now env)\<rparr>;
          disliked1 = disliked(json_key artist \<mapsto> entry3)
      in emit (File_save DISLIKED_PATH)
           (w\<lparr>disliked_file := save_json_file (save_result env) disliked1 (disliked_file w)\<rparr>))"

text \<open>
  The decision routine has no handler either: when the purge raises, the routine raises
  in place of returning, after the dislike has been stored.
\<close>

definition act_on_rating ::
  "env \<Rightarrow> string option \<Rightarrow> string option \<Rightarrow> string option \<Rightarrow> string option
     \<Rightarrow> bucket option \<Rightarrow> world \<Rightarrow> (py_error + bool) \<times> world" where
  "act_on_rating env artist track album_title guid_raw normalized_bucket w =
     (if normalized_bucket = Some Like then (Inr True, add_like env artist track w)
      else if normalized_bucket = Some Dislike
      then (case purge_with_lidarr env artist track album_title guid_raw
                   (add_dislike env artist track False w) of
              (Inl e, w2) \<Rightarrow> (Inl e, w2)
            | (Inr done, w2) \<Rightarrow> (Inr True, w2))
      else (Inr False, w))"

section \<open>Sessions\<close>

record snapshot =
  artist :: "string option"
  album :: "string option"
  track :: "string option"
  guid :: "string option"
  ratingKey :: "string option"
  progress_fraction :: pyfloat
  user_rating_raw :: attr

subsection \<open>The harvest worker\<close>

text \<open>
  Every exception inside the worker is caught by its outer handler, so a raising
  request, an unparsable body or a raising decision routine ends the worker where it
  stands, with what was done until then.
\<close>

definition harvest_final_rating_for_finished_track ::
  "env \<Rightarrow> string \<Rightarrow> snapshot \<Rightarrow> world \<Rightarrow> world" where
  "harvest_final_rating_for_finished_track env session_id finished_snap w =
     (if \<not> truthy (ratingKey finished_snap) then w
      else (let rating_key = or_empty (ratingKey finished_snap);
                w1 = emit (Plex_metadata rating_key) w
            in case plex_metadata env rating_key of
                 Plex_raised \<Rightarrow> w1
               | Plex_response status body \<Rightarrow>
                   if status \<noteq> 200 then w1
                   else (case body of
                           Malformed_xml \<Rightarrow> w1
                         | Xml [] \<Rightarrow> w1
                         | Xml (track_node # others) \<Rightarrow>
                             snd (act_on_rating env (artist finished_snap) (track finished_snap)
                                    (album finished_snap) (guid finished_snap)
                                    (normalize_rating (el_userRating track_node)) w1))))"

subsection \<open>The poller\<close>

text \<open>
  \<open>float(x or d)\<close>: a missing or empty attribute reads as the default; \<open>None\<close> is
  \<open>ValueError\<close>.
\<close>

fun float_or :: "attr \<Rightarrow> real \<Rightarrow> pyfloat option" where
  "float_or Absent d = Some (Finite d)"
| "float_or Blank d = Some (Finite d)"
| "float_or Garbled d = None"
| "float_or (Numeric f) d = Some f"

text \<open>
  Float division; \<open>None\<close> is \<open>ZeroDivisionError\<close>, raised for a zero divisor whatever
  the dividend. The quotient of two finite doubles is carried before it is rounded to
  the nearest double: rounding is monotone and leaves 0 and 1 as they are, so it moves
  no quotient across either bound (a quotient too large for a double becomes an
  infinity, which is beyond 1 as the quotient is).
\<close>

fun float_div :: "pyfloat \<Rightarrow> pyfloat \<Rightarrow> pyfloat option" where
  "float_div x (Finite y) =
     (if y = 0 then None
      else (case x of
              Finite a \<Rightarrow> Some (Finite (a / y))
            | PosInf \<Rightarrow> Some (if 0 < y then PosInf else NegInf)
            | NegInf \<Rightarrow> Some (if 0 < y then NegInf else PosInf)
            | NaN \<Rightarrow> Some NaN))"
| "float_div x NaN = Some NaN"
| "float_div x PosInf = (case x of Finite a \<Rightarrow> Some (Finite 0) | other \<Rightarrow> Some NaN)"
| "float_div x NegInf = (case x of Finite a \<Rightarrow> Some (Finite 0) | other \<Rightarrow> Some NaN)"

definition progress_of :: "attr \<Rightarrow> attr \<Rightarrow> pyfloat" where
  "progress_of view_offset duration =
     (case float_or view_offset 0 of
        None \<Rightarrow> Finite 0
      | Some x \<Rightarrow>
          (case float_or duration 1 of
             None \<Rightarrow> Finite 0
           | Some y \<Rightarrow> (case float_div x y of None \<Rightarrow> Finite 0 | Some q \<Rightarrow> q)))"

text \<open>\<open>str(x)\<close> inside an f-string, for an optional string.\<close>

fun py_str :: "string option \<Rightarrow> string" where
  "py_str None = ''None''"
| "py_str (Some s) = s"

definition session_id_of :: "track_el \<Rightarrow> string" where
  "session_id_of a =
     (if truthy (el_ratingKey a) then or_empty (el_ratingKey a)
      else py_str (el_grandparentTitle a) @ ''-'' @ py_str (el_title a))"

definition snapshot_of :: "track_el \<Rightarrow> snapshot" where
  "snapshot_of a =
     \<lparr>artist = el_grandparentTitle a, album = el_parentTitle a, track = el_title a,
      guid = el_guid a, ratingKey = el_ratingKey a,
      progress_fraction = progress_of (el_viewOffset a) (el_duration a),
      user_rating_raw = el_userRating a\<rparr>"

text \<open>
  The process-wide dictionaries are association lists in insertion order, as a Python
  dict is; \<open>AList.update\<close> overwrites in place or appends. A Python set is a list
  without repetitions here; the order in which the code walks a set is not specified
  and nothing below depends on it.
\<close>

type_synonym sessions = "(string \<times> snapshot) list"

definition set_add :: "'a \<Rightarrow> 'a list \<Rightarrow> 'a list" where
  "set_add x xs = (if x \<in> set xs then xs else xs @ [x])"

definition see_track :: "track_el \<Rightarrow> sessions \<times> string list \<Rightarrow> sessions \<times> string list" where
  "see_track a st =
     (AList.update (session_id_of a) (snapshot_of a) (fst st),
      set_add (session_id_of a) (snd st))"

definition finish :: "sessions \<Rightarrow> string \<Rightarrow> sessions \<Rightarrow> sessions" where
  "finish current e finished =
     (case map_of current e of None \<Rightarrow> finished | Some snap \<Rightarrow> AList.update e snap finished)"

datatype watcher_pc = Sleeping | Scanning | Started string

text \<open>
  The state of the running process: the three globals, the poller's \<open>last_active\<close>,
  the watcher's position in its loop (\<open>scan_items\<close> is what is left of the copy
  \<open>list(RECENTLY_FINISHED.items())\<close>), and the harvest threads started so far.
\<close>

record runtime =
  CURRENT_TRACKS :: sessions
  RECENTLY_FINISHED :: sessions
  FINISHED_ALREADY_SCHEDULED :: "string set"
  last_active :: "string list"
  scan_items :: sessions
  watcher_at :: watcher_pc
  launched :: sessions

definition startup :: runtime where
  "startup =
     \<lparr>CURRENT_TRACKS = [], RECENTLY_FINISHED = [], FINISHED_ALREADY_SCHEDULED = {},
      last_active = [], scan_items = [], watcher_at = Sleeping, launched = []\<rparr>"

text \<open>One pass of the poller's loop body, up to the sleep.\<close>

definition poll_plex_sessions :: "plex_reply \<Rightarrow> runtime \<Rightarrow> runtime" where
  "poll_plex_sessions r s =
     (case r of
        Plex_raised \<Rightarrow> s
      | Plex_response status body \<Rightarrow>
          if status \<noteq> 200 then s
          else (case body of
                  Malformed_xml \<Rightarrow> s
                | Xml els \<Rightarrow>
                    (let seen = fold see_track els (CURRENT_TRACKS s, []);
                         ended = filter (\<lambda>e. e \<notin> set (snd seen)) (last_active s)
                     in s\<lparr>CURRENT_TRACKS := fst seen,
                          RECENTLY_FINISHED := fold (finish (fst seen)) ended (RECENTLY_FINISHED s),
                          last_active := snd seen\<rparr>)))"

subsection \<open>The watcher\<close>

text \<open>
  One step of \<open>finished_watcher_loop\<close>. Asleep, it wakes and copies the items of
  \<open>RECENTLY_FINISHED\<close>. Scanning, it takes the next item: an id already in the
  scheduled set is skipped; otherwise the thread is started, and only the next step adds
  the id to the set. \<open>start_ok = False\<close> is an exception before the thread runs (the
  log line or \<open>t.start()\<close> raising): the handler around the loop drops the rest of the
  scan and the watcher sleeps.
\<close>

definition watcher_step :: "bool \<Rightarrow> runtime \<Rightarrow> runtime" where
  "watcher_step start_ok s =
     (case watcher_at s of
        Sleeping \<Rightarrow> s\<lparr>scan_items := RECENTLY_FINISHED s, watcher_at := Scanning\<rparr>
      | Started session_id \<Rightarrow>
          s\<lparr>FINISHED_ALREADY_SCHEDULED := insert session_id (FINISHED_ALREADY_SCHEDULED s),
            watcher_at := Scanning\<rparr>
      | Scanning \<Rightarrow>
          (case scan_items s of
             [] \<Rightarrow> s\<lparr>watcher_at := Sleeping\<rparr>
           | item # rest \<Rightarrow>
               if fst item \<in> FINISHED_ALREADY_SCHEDULED s then s\<lparr>scan_items := rest\<rparr>
               else if start_ok
               then s\<lparr>launched := launched s @ [item], scan_items := rest,
                      watcher_at := Started (fst item)\<rparr>
               else s\<lparr>scan_items := [], watcher_at := Sleeping\<rparr>))"

text \<open>
  The threads of the process, interleaved: a schedule names, step by step, which thread
  moves. \<open>Poll r\<close> is a whole pass of the poller on the answer \<open>r\<close>; \<open>Store e snap\<close> is
  the single write \<open>RECENTLY_FINISHED[e] = snap\<close>, so that a pass of the poller may also
  be cut anywhere between two of its writes; \<open>Watch ok\<close> is one step of the one watcher
  thread the entry point starts. Harvest workers touch none of this state.
\<close>

datatype action = Poll plex_reply | Store string snapshot | Watch bool

fun step :: "action \<Rightarrow> runtime \<Rightarrow> runtime" where
  "step (Poll r) s = poll_plex_sessions r s"
| "step (Store e snap) s = s\<lparr>RECENTLY_FINISHED := AList.update e snap (RECENTLY_FINISHED s)\<rparr>"
| "step (Watch ok) s = watcher_step ok s"

definition run :: "action list \<Rightarrow> runtime \<Rightarrow> runtime" where
  "run schedule s = fold step schedule s"


text \<open>
  What holds between any two steps: no id has two threads, and the ids with a thread are
  the scheduled ones and, between \<open>t.start()\<close> and the \<open>add\<close> that follows it, the id
  just started.
\<close>

definition sched_inv :: "runtime \<Rightarrow> bool" where
  "sched_inv s =
     (distinct (map fst (launched s))
      \<and> fst ` set (launched s)
          = FINISHED_ALREADY_SCHEDULED s
            \<union> (case watcher_at s of Started session_id \<Rightarrow> {session_id} | other \<Rightarrow> {}))"


text \<open>The track ids of the delete requests in a trace, in order.\<close>

fun delete_requests :: "event list \<Rightarrow> int list" where
  "delete_requests [] = []"
| "delete_requests (Lidarr_delete i # es) = i # delete_requests es"
| "delete_requests (e # es) = delete_requests es"

section \<open>Sample inputs\<close>

definition empty_world :: world where
  "empty_world = \<lparr>liked_file = None, disliked_file = None, trace = []\<rparr>"

text \<open>A service that fails every request, and variations of it.\<close>

definition silent_env :: env where
  "silent_env =
     \<lparr>LIDARR_URL = Some ''http://lidarr:8686'', LIDARR_API_KEY = Some ''key'',
      lidarr_lookup = (\<lambda>q. Lookup_raised), lidarr_delete = (\<lambda>i. Delete_raised),
      plex_metadata = (\<lambda>k. Plex_raised), save_result = Saved,
      utc_now = ''2026-01-01T00:00:00+00:00''\<rparr>"

definition hit_no_id :: candidate where
  "hit_no_id = \<lparr>cand_id = None, cand_title = Some ''Roygbiv'', cand_artistName = None,
     cand_album_title = None, cand_hasFile = False\<rparr>"

definition env_no_id :: env where
  "env_no_id = silent_env\<lparr>lidarr_lookup :=
     (\<lambda>q. if q = ''Roygbiv'' then Lookup_response 200 (Json_list [Candidate hit_no_id])
          else Lookup_raised)\<rparr>"

definition hit_exact :: candidate where
  "hit_exact = \<lparr>cand_id = Some 7, cand_title = Some ''Roygbiv'',
     cand_artistName = Some ''Boards of Canada'', cand_album_title = None,
     cand_hasFile = True\<rparr>"

definition hit_other :: candidate where
  "hit_other = \<lparr>cand_id = Some 8, cand_title = Some ''Olson'',
     cand_artistName = Some ''Boards of Canada'', cand_album_title = None,
     cand_hasFile = False\<rparr>"

definition hit_tie :: candidate where
  "hit_tie = \<lparr>cand_id = Some 9, cand_title = Some ''ROYGBIV (live)'',
     cand_artistName = Some ''boards of canada'', cand_album_title = Some ''Hi Scores'',
     cand_hasFile = True\<rparr>"

definition env_found :: env where
  "env_found = silent_env\<lparr>
     lidarr_lookup :=
       (\<lambda>q. if q = ''Boards of Canada Roygbiv''
            then Lookup_response 200
                   (Json_list [Candidate hit_other, Candidate hit_exact, Candidate hit_tie])
            else Lookup_raised),
     lidarr_delete := (\<lambda>i. Delete_response 500)\<rparr>"

text \<open>A service whose answer to the first search holds an element that is no object.\<close>

definition env_misshapen :: env where
  "env_misshapen = silent_env\<lparr>
     lidarr_lookup :=
       (\<lambda>q. if q = ''Boards of Canada Roygbiv''
            then Lookup_response 200 (Json_list [Candidate hit_exact, Misshapen])
            else Lookup_raised),
     lidarr_delete := (\<lambda>i. Delete_response 204)\<rparr>"

definition el_roygbiv :: track_el where
  "el_roygbiv =
     \<lparr>el_grandparentTitle = Some ''Boards of Canada'',
      el_parentTitle = None,
      el_title = Some ''Roygbiv'', el_guid = None, el_ratingKey = Some ''123'',
      el_viewOffset = Numeric (Finite 95), el_duration = Numeric (Finite 100),
      el_userRating = Absent\<rparr>"

text \<open>The metadata of track 123 carries the rating 1; the delete request is refused.\<close>

definition env_rated :: env where
  "env_rated = env_found\<lparr>plex_metadata :=
     (\<lambda>k. if k = ''123''
          then Plex_response 200 (Xml [el_roygbiv\<lparr>el_userRating := Numeric (Finite 1)\<rparr>])
          else Plex_raised)\<rparr>"

definition world_liked :: world where
  "world_liked = empty_world\<lparr>liked_file :=
     Some (Map.empty(''Boards of Canada'' \<mapsto>
       \<lparr>tracks = [Some ''Olson''], last_seen = Some ''2025-12-31T00:00:00+00:00''\<rparr>))\<rparr>"

definition world_disliked :: world where
  "world_disliked = empty_world\<lparr>disliked_file :=
     Some (Map.empty(''Boards of Canada'' \<mapsto>
       \<lparr>tracks = [Some ''Olson''], last_seen = Some ''2025-12-31T00:00:00+00:00'',
        ban_artist = False\<rparr>))\<rparr>"

text \<open>A position past the end of the track, and a track without a duration.\<close>

definition el_over :: track_el where
  "el_over = el_roygbiv\<lparr>el_viewOffset := Numeric (Finite 2), el_duration := Numeric (Finite 1)\<rparr>"


definition sample_schedule :: "action list" where
  "sample_schedule =
     [Poll (Plex_response 200 (Xml [el_roygbiv])), Poll (Plex_response 200 (Xml [])),
      Watch True, Watch True, Store ''123'' (snapshot_of el_over), Watch True]"

definition sample_later :: "action list" where
  "sample_later = [Watch True, Watch True, Watch True, Watch True]"

definition later_env :: env where
  "later_env = silent_env\<lparr>utc_now := ''2026-01-02T00:00:00+00:00''\<rparr>"

section \<open>Properties of the rating normaliser\<close>

lemma five_not_dvd_two_power:
  "\<not> (5::int) dvd (10 * n + 1) * 2 ^ k" "\<not> (5::int) dvd (10 * n - 1) * 2 ^ k"
proof -
  have c: "coprime (5::int) (2 ^ k)"
    by (rule coprime_power_right_iff [THEN iffD2]) (simp add: coprime_iff_gcd_eq_1 gcd_non_0_int)
  have "\<not> (5::int) dvd 10 * n + 1" "\<not> (5::int) dvd 10 * n - 1" by presburger+
  with c show "\<not> (5::int) dvd (10 * n + 1) * 2 ^ k" "\<not> (5::int) dvd (10 * n - 1) * 2 ^ k"
    by (simp_all add: coprime_dvd_mult_left_iff)
qed

lemma dyadic_not_tenth: "\<bar>real_of_int m / 2 ^ k - real_of_int n\<bar> \<noteq> 1 / 10"
proof
  assume "\<bar>real_of_int m / 2 ^ k - real_of_int n\<bar> = 1 / 10"
  then have "real_of_int m / 2 ^ k - real_of_int n = 1 / 10
      \<or> real_of_int m / 2 ^ k - real_of_int n = - (1 / 10)"
    by (simp only: abs_eq_iff')
  then have "10 * real_of_int m = (10 * real_of_int n + 1) * 2 ^ k
      \<or> 10 * real_of_int m = (10 * real_of_int n - 1) * 2 ^ k"
    by (auto simp: field_simps)
  then have "real_of_int (10 * m) = real_of_int ((10 * n + 1) * 2 ^ k)
      \<or> real_of_int (10 * m) = real_of_int ((10 * n - 1) * 2 ^ k)"
    by simp
  then have "10 * m = (10 * n + 1) * 2 ^ k \<or> 10 * m = (10 * n - 1) * 2 ^ k"
    by (simp only: of_int_eq_iff)
  moreover have "(5::int) dvd 10 * m" by simp
  ultimately have "(5::int) dvd (10 * n + 1) * 2 ^ k \<or> (5::int) dvd (10 * n - 1) * 2 ^ k"
    by metis
  with five_not_dvd_two_power [of n k] show False by blast
qed

lemma near_dyadic:
  "near (Finite (real_of_int m / 2 ^ k)) (real_of_int n)
     = (\<bar>real_of_int m / 2 ^ k - real_of_int n\<bar> \<le> 1 / 10)"
  using dyadic_not_tenth [of m k n] by auto

text \<open>
  C3. The normaliser is total. A missing rating and one that does not parse are unrated;
  a parsed value less than one tenth away from 10 or from 5 is a like; one less than one
  tenth away from 2 or from 1 is a dislike; every other value, the infinities and NaN
  included, is unrated. The six sample values of the specification fall as it says.
  The value of a finite double is a whole number over a power of two, and such a value
  is never exactly one tenth away from a whole number: for it, less than one tenth away
  and at most one tenth away are the same.
\<close>

theorem normalize_rating_buckets:
  "(\<forall>m k n. near (Finite (real_of_int m / 2 ^ k)) (real_of_int n)
               = (\<bar>real_of_int m / 2 ^ k - real_of_int n\<bar> \<le> 1 / 10))
   \<and> normalize_rating Absent = None \<and> normalize_rating Blank = None
   \<and> normalize_rating Garbled = None
   \<and> (\<forall>x. \<bar>x - 10\<bar> < 1 / 10 \<or> \<bar>x - 5\<bar> < 1 / 10
         \<longrightarrow> normalize_rating (Numeric (Finite x)) = Some Like)
   \<and> (\<forall>x. \<bar>x - 2\<bar> < 1 / 10 \<or> \<bar>x - 1\<bar> < 1 / 10
         \<longrightarrow> normalize_rating (Numeric (Finite x)) = Some Dislike)
   \<and> (\<forall>x. \<not> \<bar>x - 10\<bar> < 1 / 10 \<and> \<not> \<bar>x - 5\<bar> < 1 / 10
          \<and> \<not> \<bar>x - 2\<bar> < 1 / 10 \<and> \<not> \<bar>x - 1\<bar> < 1 / 10
         \<longrightarrow> normalize_rating (Numeric (Finite x)) = None)
   \<and> normalize_rating (Numeric PosInf) = None \<and> normalize_rating (Numeric NegInf) = None
   \<and> normalize_rating (Numeric NaN) = None
   \<and> normalize_rating (Numeric (Finite 10.0)) = Some Like
   \<and> normalize_rating (Numeric (Finite 5.05)) = Some Like
   \<and> normalize_rating (Numeric (Finite 1.0)) = Some Dislike
   \<and> normalize_rating (Numeric (Finite 2.08)) = Some Dislike
   \<and> normalize_rating (Numeric (Finite 7.0)) = None"
proof (rule conjI)
  show "\<forall>m k n. near (Finite (real_of_int m / 2 ^ k)) (real_of_int n)
               = (\<bar>real_of_int m / 2 ^ k - real_of_int n\<bar> \<le> 1 / 10)"
    by (intro allI) (rule near_dyadic)
qed (auto simp: abs_if split: if_splits)

theorem normalize_rating_buckets_witness:
  "\<bar>(9.95::real) - 10\<bar> < 1 / 10 \<and> normalize_rating (Numeric (Finite 9.95)) = Some Like
   \<and> \<bar>(1.92::real) - 2\<bar> < 1 / 10 \<and> normalize_rating (Numeric (Finite 1.92)) = Some Dislike
   \<and> \<not> \<bar>(3::real) - 10\<bar> < 1 / 10 \<and> \<not> \<bar>(3::real) - 5\<bar> < 1 / 10
   \<and> \<not> \<bar>(3::real) - 2\<bar> < 1 / 10 \<and> \<not> \<bar>(3::real) - 1\<bar> < 1 / 10
   \<and> normalize_rating (Numeric (Finite 3)) = None"
proof -
  have near10: "\<bar>(9.95::real) - 10\<bar> < 1 / 10 \<or> \<bar>(9.95::real) - 5\<bar> < 1 / 10" by simp
  have near2: "\<bar>(1.92::real) - 2\<bar> < 1 / 10 \<or> \<bar>(1.92::real) - 1\<bar> < 1 / 10" by simp
  have far: "\<not> \<bar>(3::real) - 10\<bar> < 1 / 10 \<and> \<not> \<bar>(3::real) - 5\<bar> < 1 / 10
      \<and> \<not> \<bar>(3::real) - 2\<bar> < 1 / 10 \<and> \<not> \<bar>(3::real) - 1\<bar> < 1 / 10" by simp
  from normalize_rating_buckets near10
  have a: "normalize_rating (Numeric (Finite 9.95)) = Some Like" by blast
  from normalize_rating_buckets near2
  have b: "normalize_rating (Numeric (Finite 1.92)) = Some Dislike" by blast
  from normalize_rating_buckets far
  have c: "normalize_rating (Numeric (Finite 3)) = None" by blast
  from a b c far show ?thesis by simp
qed

section \<open>Properties of the match scorer\<close>



lemma py_lower_Nil: "py_lower [] = []"
  by (simp add: py_lower_def)







text \<open>When every item is a candidate no key raises, and \<open>max\<close> is the plain search.\<close>

lemma max_loop_candidates:
  "max_loop (\<lambda>h. score_lidarr_candidate h a t al) (Candidate b) (candidate_score b a t al)
       (map Candidate xs)
     = Inr (Candidate (max_from (\<lambda>h. candidate_score h a t al) b xs))"
  by (induction xs arbitrary: b) simp_all

lemma py_max_candidates:
  "py_max (\<lambda>h. score_lidarr_candidate h a t al) (Candidate first) (map Candidate rest)
     = Inr (Candidate (max_from (\<lambda>h. candidate_score h a t al) first rest))"
  by (simp add: py_max_def max_loop_candidates)

text \<open>One misshapen item anywhere in the list makes \<open>max\<close> raise.\<close>

lemma max_loop_misshapen:
  "Misshapen \<in> set xs \<Longrightarrow>
     max_loop (\<lambda>h. score_lidarr_candidate h a t al) b k xs = Inl AttributeError"
proof (induction xs arbitrary: b k)
  case Nil
  then show ?case by simp
next
  case (Cons x xs)
  show ?case
  proof (cases x)
    case Misshapen
    then show ?thesis by simp
  next
    case (Candidate c)
    with Cons.prems have "Misshapen \<in> set xs" by simp
    with Candidate Cons.IH show ?thesis by simp
  qed
qed

lemma py_max_misshapen:
  "Misshapen \<in> set (first # rest) \<Longrightarrow>
     py_max (\<lambda>h. score_lidarr_candidate h a t al) first rest = Inl AttributeError"
  by (cases first) (simp_all add: py_max_def max_loop_misshapen)


lemma try_reply_candidates:
  "try_reply (Lookup_response 200 (Json_list (map Candidate (first # rest)))) a t al
     = (let best = max_from (\<lambda>h. candidate_score h a t al) first rest
        in if 2 \<le> candidate_score best a t al \<and> cand_id best \<noteq> None
           then Inr (Some \<lparr>match_id = the (cand_id best), match_title = cand_title best,
                           match_artistName = cand_artistName best\<rparr>)
           else Inr None)"
  using py_max_candidates [of a t al first rest]
  by (simp add: try_reply_def Let_def)

lemma try_reply_misshapen:
  "Misshapen \<in> set items \<Longrightarrow>
     try_reply (Lookup_response 200 (Json_list items)) a t al = Inl AttributeError"
proof (cases items)
  case Nil
  assume "Misshapen \<in> set items"
  with Nil show ?thesis by simp
next
  case (Cons first rest)
  assume "Misshapen \<in> set items"
  with Cons have "py_max (\<lambda>h. score_lidarr_candidate h a t al) first rest = Inl AttributeError"
    by (simp add: py_max_misshapen)
  with Cons show ?thesis by (simp add: try_reply_def Let_def)
qed

lemma sample_scores:
  "candidate_score hit_exact ''boards of canada'' ''roygbiv'' [] = 5"
  "candidate_score hit_other ''boards of canada'' ''roygbiv'' [] = 2"
  "candidate_score hit_tie ''boards of canada'' ''roygbiv'' [] = 5"
  by (simp_all add: candidate_score_def hit_exact_def hit_other_def hit_tie_def
        py_lower_def lower_char_def)

lemma sample_lower:
  "py_lower ''Boards of Canada'' = ''boards of canada''" "py_lower ''Roygbiv'' = ''roygbiv''"
  by (simp_all add: py_lower_def lower_char_def)



section \<open>Properties of the library client\<close>

lemma emit_simps:
  "trace (emit e w) = trace w @ [e]" "liked_file (emit e w) = liked_file w"
  "disliked_file (emit e w) = disliked_file w"
  by (simp_all add: emit_def)

text \<open>
  The loop stops at the first term whose reply does not continue, with what that reply
  gives, a match or an exception; the searches sent are the terms up to that one.
\<close>

lemma lookup_loop_char:
  "lookup_loop env la lt lal qs w =
     (let found = (\<lambda>q. try_reply (lidarr_lookup env q) la lt lal)
      in case dropWhile (\<lambda>q. found q = Inr None) qs of
           [] \<Rightarrow> (Inr None, w\<lparr>trace := trace w @ map Lidarr_search qs\<rparr>)
         | q # later \<Rightarrow>
             (found q,
              w\<lparr>trace := trace w
                   @ map Lidarr_search (takeWhile (\<lambda>q. found q = Inr None) qs @ [q])\<rparr>))"
proof (induction qs arbitrary: w)
  case Nil
  show ?case by simp
next
  case (Cons q qs)
  note IH = Cons
  let ?P = "\<lambda>q. try_reply (lidarr_lookup env q) la lt lal = Inr None"
  show ?case
  proof (cases "?P q")
    case True
    then have step: "lookup_loop env la lt lal (q # qs) w
        = lookup_loop env la lt lal qs (emit (Lidarr_search q) w)"
      by simp
    from True have dw: "dropWhile ?P (q # qs) = dropWhile ?P qs"
      and tw: "takeWhile ?P (q # qs) = q # takeWhile ?P qs" by simp_all
    show ?thesis
    proof (cases "dropWhile ?P qs")
      case Nil
      show ?thesis
        unfolding step IH [of "emit (Lidarr_search q) w"] Let_def dw tw Nil
        by (simp add: emit_def)
    next
      case (Cons r rs)
      show ?thesis
        unfolding step IH [of "emit (Lidarr_search q) w"] Let_def dw tw Cons
        by (simp add: emit_def)
    qed
  next
    case False
    then have step: "lookup_loop env la lt lal (q # qs) w
        = (try_reply (lidarr_lookup env q) la lt lal, emit (Lidarr_search q) w)"
      by (auto simp: Let_def split: sum.splits option.splits)
    from False have dw: "dropWhile ?P (q # qs) = q # qs"
      and tw: "takeWhile ?P (q # qs) = []" by simp_all
    show ?thesis unfolding step Let_def dw tw by (simp add: emit_def)
  qed
qed



lemma delete_requests_append:
  "delete_requests (es @ fs) = delete_requests es @ delete_requests fs"
  by (induction es rule: delete_requests.induct) simp_all

lemma delete_requests_searches: "delete_requests (map Lidarr_search qs) = []"
  by (induction qs) simp_all

lemma guid_tail_char:
  "\<exists>pre. s = pre @ guid_tail s \<and> CHR ''/'' \<notin> set (guid_tail s)
      \<and> (pre = [] \<or> last pre = CHR ''/'')"
proof (intro exI conjI)
  let ?P = "\<lambda>c. c \<noteq> CHR ''/''"
  have "rev (dropWhile ?P (rev s)) @ rev (takeWhile ?P (rev s))
      = rev (takeWhile ?P (rev s) @ dropWhile ?P (rev s))"
    by (simp only: rev_append)
  also have "\<dots> = s" by (simp only: takeWhile_dropWhile_id rev_rev_ident)
  finally show "s = rev (dropWhile ?P (rev s)) @ guid_tail s"
    by (simp only: guid_tail_def)
  show "CHR ''/'' \<notin> set (guid_tail s)"
    by (auto simp: guid_tail_def dest: set_takeWhileD)
  show "rev (dropWhile ?P (rev s)) = [] \<or> last (rev (dropWhile ?P (rev s))) = CHR ''/''"
  proof (cases "dropWhile ?P (rev s)")
    case Nil
    then show ?thesis by simp
  next
    case (Cons c cs)
    have "\<not> ?P (hd (dropWhile ?P (rev s)))"
      by (rule hd_dropWhile) (simp add: Cons)
    then show ?thesis by (simp add: Cons last_rev)
  qed
qed







lemma lookup_loop_effect:
  "\<exists>qs'. snd (lookup_loop env la lt lal qs w) = w\<lparr>trace := trace w @ map Lidarr_search qs'\<rparr>"
  unfolding lookup_loop_char Let_def
proof (cases "dropWhile (\<lambda>q. try_reply (lidarr_lookup env q) la lt lal = Inr None) qs")
  case Nil
  show "\<exists>qs'. snd (case dropWhile (\<lambda>q. try_reply (lidarr_lookup env q) la lt lal = Inr None) qs of
          [] \<Rightarrow> (Inr None, w\<lparr>trace := trace w @ map Lidarr_search qs\<rparr>)
        | q # later \<Rightarrow> (try_reply (lidarr_lookup env q) la lt lal,
            w\<lparr>trace := trace w @ map Lidarr_search
              (takeWhile (\<lambda>q. try_reply (lidarr_lookup env q) la lt lal = Inr None) qs @ [q])\<rparr>))
      = w\<lparr>trace := trace w @ map Lidarr_search qs'\<rparr>"
    unfolding Nil by (rule exI [of _ qs]) simp
next
  case (Cons r rs)
  show "\<exists>qs'. snd (case dropWhile (\<lambda>q. try_reply (lidarr_lookup env q) la lt lal = Inr None) qs of
          [] \<Rightarrow> (Inr None, w\<lparr>trace := trace w @ map Lidarr_search qs\<rparr>)
        | q # later \<Rightarrow> (try_reply (lidarr_lookup env q) la lt lal,
            w\<lparr>trace := trace w @ map Lidarr_search
              (takeWhile (\<lambda>q. try_reply (lidarr_lookup env q) la lt lal = Inr None) qs @ [q])\<rparr>))
      = w\<lparr>trace := trace w @ map Lidarr_search qs'\<rparr>"
    unfolding Cons
    by (rule exI [of _ "takeWhile (\<lambda>q. try_reply (lidarr_lookup env q) la lt lal = Inr None) qs
          @ [r]"]) simp
qed

lemma lookup_effect:
  "\<exists>qs. snd (lidarr_track_lookup_multi env a t al g w)
          = w\<lparr>trace := trace w @ map Lidarr_search qs\<rparr>"
proof (cases "lidarr_configured env")
  case True
  then show ?thesis
    using lookup_loop_effect [of env "py_lower (or_empty a)" "py_lower (or_empty t)"
        "py_lower (or_empty al)" "search_terms a t al g" w]
    by (simp add: lidarr_track_lookup_multi_def)
next
  case False
  have "snd (lidarr_track_lookup_multi env a t al g w)
      = w\<lparr>trace := trace w @ map Lidarr_search []\<rparr>"
    using False by (simp add: lidarr_track_lookup_multi_def)
  then show ?thesis by blast
qed

lemma lookup_Some_configured:
  "fst (lidarr_track_lookup_multi env a t al g w) = Inr (Some m) \<Longrightarrow> lidarr_configured env"
  by (cases "lidarr_configured env") (simp_all add: lidarr_track_lookup_multi_def)

lemma delete_track_trace:
  "lidarr_configured env \<Longrightarrow>
     snd (lidarr_delete_track env i w) = w\<lparr>trace := trace w @ [Lidarr_delete i]\<rparr>"
  by (simp add: lidarr_delete_track_def emit_def Let_def split: delete_reply.splits)

lemma purge_result:
  "fst (purge_with_lidarr env a t al g w)
     = (case fst (lidarr_track_lookup_multi env a t al g w) of
          Inl e \<Rightarrow> Inl e | Inr found \<Rightarrow> Inr ())"
  by (cases "lidarr_track_lookup_multi env a t al g w")
     (simp add: purge_with_lidarr_def split: sum.splits option.splits)

lemma purge_trace:
  "trace (snd (purge_with_lidarr env a t al g w))
     = trace (snd (lidarr_track_lookup_multi env a t al g w))
       @ (case fst (lidarr_track_lookup_multi env a t al g w) of
            Inr (Some m) \<Rightarrow> [Lidarr_delete (match_id m)] | other \<Rightarrow> [])"
proof (cases "lidarr_track_lookup_multi env a t al g w")
  case (Pair r w1)
  show ?thesis
  proof (cases r)
    case (Inl e)
    with Pair show ?thesis by (simp add: purge_with_lidarr_def)
  next
    case (Inr found)
    show ?thesis
    proof (cases found)
      case None
      with Pair Inr show ?thesis by (simp add: purge_with_lidarr_def)
    next
      case (Some m)
      with Pair Inr have "fst (lidarr_track_lookup_multi env a t al g w) = Inr (Some m)"
        by simp
      then have "lidarr_configured env" by (rule lookup_Some_configured)
      with Pair Inr Some show ?thesis by (simp add: purge_with_lidarr_def delete_track_trace)
    qed
  qed
qed

lemma delete_track_files:
  "liked_file (snd (lidarr_delete_track env i w)) = liked_file w"
  "disliked_file (snd (lidarr_delete_track env i w)) = disliked_file w"
  by (simp_all add: lidarr_delete_track_def emit_def Let_def split: delete_reply.splits)

lemma purge_files:
  "liked_file (snd (purge_with_lidarr env a t al g w)) = liked_file w
   \<and> disliked_file (snd (purge_with_lidarr env a t al g w)) = disliked_file w"
proof -
  obtain qs where e: "snd (lidarr_track_lookup_multi env a t al g w)
      = w\<lparr>trace := trace w @ map Lidarr_search qs\<rparr>"
    using lookup_effect by blast
  show ?thesis
  proof (cases "lidarr_track_lookup_multi env a t al g w")
    case (Pair r w1)
    with e have w1: "w1 = w\<lparr>trace := trace w @ map Lidarr_search qs\<rparr>" by simp
    show ?thesis
      using Pair w1
      by (simp add: purge_with_lidarr_def delete_track_files split: sum.splits option.splits)
  qed
qed

text \<open>
  What the purge does whatever it is answered: the lookup sends searches only; after it
  the purge sends one delete request, for the id of the match, exactly when the lookup
  returned a match; it raises exactly when the lookup raises, and then sends no delete
  request; the preference files are not touched.
\<close>

lemma purge_deletes_iff_match:
  "(let found = lidarr_track_lookup_multi env a t al g w;
        done = purge_with_lidarr env a t al g w
    in fst done = (case fst found of Inl e \<Rightarrow> Inl e | Inr m \<Rightarrow> Inr ())
     \<and> trace (snd done)
        = trace (snd found)
          @ (case fst found of Inr (Some m) \<Rightarrow> [Lidarr_delete (match_id m)] | other \<Rightarrow> [])
     \<and> delete_requests (trace (snd found)) = delete_requests (trace w)
     \<and> delete_requests (trace (snd done))
        = delete_requests (trace w)
          @ (case fst found of Inr (Some m) \<Rightarrow> [match_id m] | other \<Rightarrow> [])
     \<and> liked_file (snd done) = liked_file w \<and> disliked_file (snd done) = disliked_file w)"
proof -
  obtain qs where e: "snd (lidarr_track_lookup_multi env a t al g w)
      = w\<lparr>trace := trace w @ map Lidarr_search qs\<rparr>"
    using lookup_effect by blast
  have d1: "delete_requests (trace (snd (lidarr_track_lookup_multi env a t al g w)))
      = delete_requests (trace w)"
    by (simp add: e delete_requests_append delete_requests_searches)
  have d2: "delete_requests (trace (snd (purge_with_lidarr env a t al g w)))
      = delete_requests (trace w)
        @ (case fst (lidarr_track_lookup_multi env a t al g w) of
             Inr (Some m) \<Rightarrow> [match_id m] | other \<Rightarrow> [])"
    unfolding purge_trace delete_requests_append d1
    by (simp split: sum.split option.split)
  from purge_result [of env a t al g w] purge_trace [of env a t al g w] d1 d2
    purge_files [of env a t al g w]
  show ?thesis unfolding Let_def by blast
qed

lemma sample_terms:
  "search_terms (Some ''Boards of Canada'') (Some ''Roygbiv'') None None
     = [''Boards of Canada Roygbiv'', ''Roygbiv'']"
  "search_terms None (Some ''Roygbiv'') None None = [''Roygbiv'']"
  by (simp_all add: search_terms_def)

lemma silent_configured:
  "lidarr_configured silent_env" "lidarr_configured env_found" "lidarr_configured env_no_id"
  "lidarr_configured env_misshapen"
  by (simp_all add: lidarr_configured_def silent_env_def env_found_def env_no_id_def
        env_misshapen_def)



lemma sample_found:
  "try_reply (lidarr_lookup env_found ''Boards of Canada Roygbiv'')
      ''boards of canada'' ''roygbiv'' []
    = Inr (Some \<lparr>match_id = 7, match_title = Some ''Roygbiv'',
                  match_artistName = Some ''Boards of Canada''\<rparr>)"
proof -
  have r: "lidarr_lookup env_found ''Boards of Canada Roygbiv''
      = Lookup_response 200 (Json_list (map Candidate [hit_other, hit_exact, hit_tie]))"
    by (simp add: env_found_def silent_env_def)
  have f: "cand_id hit_exact = Some 7" "cand_title hit_exact = Some ''Roygbiv''"
    "cand_artistName hit_exact = Some ''Boards of Canada''"
    by (simp_all add: hit_exact_def)
  show ?thesis
    unfolding r try_reply_candidates by (simp add: sample_scores f)
qed

lemma sample_lookup_found:
  "lidarr_track_lookup_multi env_found (Some ''Boards of Canada'') (Some ''Roygbiv'') None None
      empty_world
    = (Inr (Some \<lparr>match_id = 7, match_title = Some ''Roygbiv'',
                   match_artistName = Some ''Boards of Canada''\<rparr>),
       empty_world\<lparr>trace := [Lidarr_search ''Boards of Canada Roygbiv'']\<rparr>)"
  by (simp add: lidarr_track_lookup_multi_def silent_configured sample_terms sample_lower
        py_lower_Nil sample_found emit_def empty_world_def)

lemma silent_lookup: "lidarr_lookup silent_env q = Lookup_raised"
  by (simp add: silent_env_def)

lemma sample_lookup_silent:
  "lidarr_track_lookup_multi silent_env (Some ''Boards of Canada'') (Some ''Roygbiv'') None None
      empty_world
    = (Inr None, empty_world\<lparr>trace := [Lidarr_search ''Boards of Canada Roygbiv'',
                                         Lidarr_search ''Roygbiv'']\<rparr>)"
  by (simp add: lidarr_track_lookup_multi_def silent_configured sample_terms sample_lower
        py_lower_Nil emit_def empty_world_def try_reply_def silent_lookup)


lemma sample_misshapen:
  "try_reply (lidarr_lookup env_misshapen ''Boards of Canada Roygbiv'') la lt lal
     = Inl AttributeError"
proof -
  have "lidarr_lookup env_misshapen ''Boards of Canada Roygbiv''
      = Lookup_response 200 (Json_list [Candidate hit_exact, Misshapen])"
    by (simp add: env_misshapen_def silent_env_def)
  then show ?thesis by (simp add: try_reply_misshapen)
qed

lemma sample_lookup_misshapen:
  "lidarr_track_lookup_multi env_misshapen (Some ''Boards of Canada'') (Some ''Roygbiv'')
      None None w
    = (Inl AttributeError, w\<lparr>trace := trace w @ [Lidarr_search ''Boards of Canada Roygbiv'']\<rparr>)"
  by (simp add: lidarr_track_lookup_multi_def silent_configured sample_terms sample_misshapen
        emit_def)

text \<open>
  C6, at a failing input. The first search is answered with status 200 and a list of
  two elements, a candidate and an element that is no object. The key function of
  \<open>max\<close> raises \<open>AttributeError\<close> on the second; no handler of the lookup or of the
  purge catches it, and the purge raises to its caller. No delete request is made.
\<close>

theorem purge_raises_on_misshapen_result:
  "lidarr_lookup env_misshapen ''Boards of Canada Roygbiv''
     = Lookup_response 200 (Json_list [Candidate hit_exact, Misshapen])
   \<and> purge_with_lidarr env_misshapen (Some ''Boards of Canada'') (Some ''Roygbiv'') None None
        empty_world
     = (Inl AttributeError,
        empty_world\<lparr>trace := [Lidarr_search ''Boards of Canada Roygbiv'']\<rparr>)"
  by (simp add: purge_with_lidarr_def sample_lookup_misshapen)
     (simp add: env_misshapen_def silent_env_def empty_world_def)

section \<open>Properties of the preference store and the decision routine\<close>

lemma add_like_files:
  "liked_file (add_like env a tr w)
     = save_json_file (save_result env)
         ((load_json_file (liked_file w))(json_key a \<mapsto>
            (dict_get (load_json_file (liked_file w)) a \<lparr>tracks = [], last_seen = None\<rparr>)
              \<lparr>tracks := append_new tr (tracks (dict_get (load_json_file (liked_file w)) a
                                               \<lparr>tracks = [], last_seen = None\<rparr>)),
               last_seen := Some (utc_now env)\<rparr>))
         (liked_file w)"
  "disliked_file (add_like env a tr w) = disliked_file w"
  "trace (add_like env a tr w) = trace w @ [File_save LIKED_PATH]"
  by (simp_all add: add_like_def Let_def emit_def)

lemma add_dislike_files:
  "disliked_file (add_dislike env a tr False w)
     = save_json_file (save_result env)
         ((load_json_file (disliked_file w))(json_key a \<mapsto>
            (dict_get (load_json_file (disliked_file w)) a
                \<lparr>tracks = [], last_seen = None, ban_artist = False\<rparr>)
              \<lparr>tracks := append_new tr (tracks (dict_get (load_json_file (disliked_file w)) a
                                               \<lparr>tracks = [], last_seen = None, ban_artist = False\<rparr>)),
               last_seen := Some (utc_now env)\<rparr>))
         (disliked_file w)"
  "liked_file (add_dislike env a tr ban w) = liked_file w"
  "trace (add_dislike env a tr ban w) = trace w @ [File_save DISLIKED_PATH]"
  by (simp_all add: add_dislike_def Let_def emit_def)

text \<open>
  What the decision routine does whatever it is answered. For a like it stores the like
  and returns true: when the write succeeds, the liked document afterwards is the one
  loaded with the artist's entry replaced by that entry with the track added at the end
  of its list, unless already there, and the time stamp renewed. For a dislike it is
  the purge run on the state that adding the dislike leaves: the write of the disliked
  document is the first new event, the searches and the delete request, if any, come
  after it, and the disliked document at the end is the one the write left, whatever
  the lookup and the delete request did; it returns true when the purge returns and
  raises when the purge raises. For no bucket it returns false and changes nothing.
\<close>

lemma act_on_rating_routes:
  "act_on_rating env a tr al g (Some Like) w = (Inr True, add_like env a tr w)
   \<and> (save_result env = Saved \<longrightarrow>
        (let liked = load_json_file (liked_file w);
             entry = dict_get liked a \<lparr>tracks = [], last_seen = None\<rparr>
         in liked_file (add_like env a tr w)
            = Some (liked(json_key a \<mapsto>
                 entry\<lparr>tracks := (if tr \<in> set (tracks entry) then tracks entry
                                    else tracks entry @ [tr]),
                       last_seen := Some (utc_now env)\<rparr>))))
   \<and> disliked_file (add_like env a tr w) = disliked_file w
   \<and> trace (add_like env a tr w) = trace w @ [File_save LIKED_PATH]
   \<and> fst (act_on_rating env a tr al g (Some Dislike) w)
      = (case fst (purge_with_lidarr env a tr al g (add_dislike env a tr False w)) of
           Inl e \<Rightarrow> Inl e | Inr done \<Rightarrow> Inr True)
   \<and> snd (act_on_rating env a tr al g (Some Dislike) w)
      = snd (purge_with_lidarr env a tr al g (add_dislike env a tr False w))
   \<and> (save_result env = Saved \<longrightarrow>
        (let disliked = load_json_file (disliked_file w);
             entry = dict_get disliked a \<lparr>tracks = [], last_seen = None, ban_artist = False\<rparr>
         in disliked_file (add_dislike env a tr False w)
            = Some (disliked(json_key a \<mapsto>
                 entry\<lparr>tracks := (if tr \<in> set (tracks entry) then tracks entry
                                    else tracks entry @ [tr]),
                       last_seen := Some (utc_now env)\<rparr>))))
   \<and> disliked_file (snd (act_on_rating env a tr al g (Some Dislike) w))
      = disliked_file (add_dislike env a tr False w)
   \<and> liked_file (snd (act_on_rating env a tr al g (Some Dislike) w)) = liked_file w
   \<and> (\<exists>qs. trace (snd (act_on_rating env a tr al g (Some Dislike) w))
          = trace w @ File_save DISLIKED_PATH # map Lidarr_search qs
            @ (case fst (lidarr_track_lookup_multi env a tr al g
                           (add_dislike env a tr False w)) of
                 Inr (Some m) \<Rightarrow> [Lidarr_delete (match_id m)] | other \<Rightarrow> []))
   \<and> act_on_rating env a tr al g None w = (Inr False, w)"
proof -
  let ?w1 = "add_dislike env a tr False w"
  have like: "act_on_rating env a tr al g (Some Like) w = (Inr True, add_like env a tr w)"
    by (simp add: act_on_rating_def)
  have dis1: "fst (act_on_rating env a tr al g (Some Dislike) w)
      = (case fst (purge_with_lidarr env a tr al g ?w1) of
           Inl e \<Rightarrow> Inl e | Inr done \<Rightarrow> Inr True)"
    by (cases "purge_with_lidarr env a tr al g ?w1")
       (simp add: act_on_rating_def split: sum.splits)
  have dis2: "snd (act_on_rating env a tr al g (Some Dislike) w)
      = snd (purge_with_lidarr env a tr al g ?w1)"
    by (cases "purge_with_lidarr env a tr al g ?w1")
       (simp add: act_on_rating_def split: sum.splits)
  have none: "act_on_rating env a tr al g None w = (Inr False, w)"
    by (simp add: act_on_rating_def)
  have lw: "save_result env = Saved \<longrightarrow>
        (let liked = load_json_file (liked_file w);
             entry = dict_get liked a \<lparr>tracks = [], last_seen = None\<rparr>
         in liked_file (add_like env a tr w)
            = Some (liked(json_key a \<mapsto>
                 entry\<lparr>tracks := (if tr \<in> set (tracks entry) then tracks entry
                                    else tracks entry @ [tr]),
                       last_seen := Some (utc_now env)\<rparr>)))"
    by (simp add: add_like_files save_json_file_def append_new_def Let_def)
  have dw: "save_result env = Saved \<longrightarrow>
        (let disliked = load_json_file (disliked_file w);
             entry = dict_get disliked a \<lparr>tracks = [], last_seen = None, ban_artist = False\<rparr>
         in disliked_file (add_dislike env a tr False w)
            = Some (disliked(json_key a \<mapsto>
                 entry\<lparr>tracks := (if tr \<in> set (tracks entry) then tracks entry
                                    else tracks entry @ [tr]),
                       last_seen := Some (utc_now env)\<rparr>)))"
    by (simp add: add_dislike_files save_json_file_def append_new_def Let_def)
  have pf: "disliked_file (snd (purge_with_lidarr env a tr al g ?w1)) = disliked_file ?w1"
    "liked_file (snd (purge_with_lidarr env a tr al g ?w1)) = liked_file w"
    using purge_files [of env a tr al g ?w1] by (simp_all add: add_dislike_files)
  obtain qs where e: "snd (lidarr_track_lookup_multi env a tr al g ?w1)
      = ?w1\<lparr>trace := trace ?w1 @ map Lidarr_search qs\<rparr>"
    using lookup_effect by blast
  have tr: "trace (snd (purge_with_lidarr env a tr al g ?w1))
      = trace w @ File_save DISLIKED_PATH # map Lidarr_search qs
        @ (case fst (lidarr_track_lookup_multi env a tr al g ?w1) of
             Inr (Some m) \<Rightarrow> [Lidarr_delete (match_id m)] | other \<Rightarrow> [])"
    unfolding purge_trace e by (simp add: add_dislike_files)
  then have ex: "\<exists>qs. trace (snd (purge_with_lidarr env a tr al g ?w1))
      = trace w @ File_save DISLIKED_PATH # map Lidarr_search qs
        @ (case fst (lidarr_track_lookup_multi env a tr al g ?w1) of
             Inr (Some m) \<Rightarrow> [Lidarr_delete (match_id m)] | other \<Rightarrow> [])" by blast
  show ?thesis
    unfolding like dis1 dis2 none
    using lw dw pf ex add_like_files(2,3) [of env a tr w] by blast
qed

lemma count_list_distinct: "distinct xs \<Longrightarrow> x \<in> set xs \<Longrightarrow> count_list xs x = 1"
  by (induction xs) auto

lemma append_new_once:
  "distinct ts \<Longrightarrow> distinct (append_new x ts) \<and> x \<in> set (append_new x ts)
     \<and> count_list (append_new x ts) x = 1 \<and> append_new x (append_new x ts) = append_new x ts"
  by (auto simp: append_new_def count_list_distinct)

lemma env_rated_simps:
  "lidarr_configured env_rated" "save_result env_rated = Saved"
  "utc_now env_rated = ''2026-01-01T00:00:00+00:00''"
  "lidarr_lookup env_rated = lidarr_lookup env_found"
  "lidarr_delete env_rated i = Delete_response 500"
  "save_result env_found = Saved" "save_result silent_env = Saved"
  "save_result env_misshapen = Saved" "utc_now env_misshapen = ''2026-01-01T00:00:00+00:00''"
  "utc_now env_found = ''2026-01-01T00:00:00+00:00''"
  "utc_now silent_env = ''2026-01-01T00:00:00+00:00''"
  by (simp_all add: env_rated_def env_found_def env_misshapen_def silent_env_def
        lidarr_configured_def)

lemma sample_dislike:
  "add_dislike env_misshapen (Some ''Boards of Canada'') (Some ''Roygbiv'') False empty_world
     = \<lparr>liked_file = None,
        disliked_file = Some (Map.empty(''Boards of Canada'' \<mapsto>
           \<lparr>tracks = [Some ''Roygbiv''], last_seen = Some ''2026-01-01T00:00:00+00:00'',
            ban_artist = False\<rparr>)),
        trace = [File_save DISLIKED_PATH]\<rparr>"
  by (simp add: add_dislike_def Let_def emit_def save_json_file_def load_json_file_def
        dict_get_def append_new_def empty_world_def env_rated_simps)

text \<open>
  C2, at a failing input (the one of C6). The rating is a dislike and the first search
  is answered with a list that holds an element that is no object. The dislike is
  stored, the search is sent, and the routine raises \<open>AttributeError\<close> in place of
  returning true.
\<close>

theorem act_on_rating_raises_after_dislike:
  "lidarr_lookup env_misshapen ''Boards of Canada Roygbiv''
     = Lookup_response 200 (Json_list [Candidate hit_exact, Misshapen])
   \<and> act_on_rating env_misshapen (Some ''Boards of Canada'') (Some ''Roygbiv'') None None
        (Some Dislike) empty_world
     = (Inl AttributeError,
        \<lparr>liked_file = None,
         disliked_file = Some (Map.empty(''Boards of Canada'' \<mapsto>
           \<lparr>tracks = [Some ''Roygbiv''], last_seen = Some ''2026-01-01T00:00:00+00:00'',
            ban_artist = False\<rparr>)),
         trace = [File_save DISLIKED_PATH, Lidarr_search ''Boards of Canada Roygbiv'']\<rparr>)"
proof -
  have r: "lidarr_lookup env_misshapen ''Boards of Canada Roygbiv''
      = Lookup_response 200 (Json_list [Candidate hit_exact, Misshapen])"
    by (simp add: env_misshapen_def silent_env_def)
  have "act_on_rating env_misshapen (Some ''Boards of Canada'') (Some ''Roygbiv'') None None
        (Some Dislike) empty_world
     = (Inl AttributeError,
        (add_dislike env_misshapen (Some ''Boards of Canada'') (Some ''Roygbiv'') False
           empty_world)
        \<lparr>trace := trace (add_dislike env_misshapen (Some ''Boards of Canada'')
                          (Some ''Roygbiv'') False empty_world)
                  @ [Lidarr_search ''Boards of Canada Roygbiv'']\<rparr>)"
    by (simp add: act_on_rating_def purge_with_lidarr_def sample_lookup_misshapen)
  with r show ?thesis by (simp add: sample_dislike)
qed

text \<open>
  C9. When the writes succeed and the artist's stored track list has no duplicates,
  adding the same like once leaves a list without duplicates that holds the track
  exactly once, and adding it a second time does too, with the time stamp of the second
  call; the same for dislikes.
\<close>

theorem add_twice_one_occurrence:
  "save_result env1 = Saved \<and> save_result env2 = Saved \<longrightarrow>
     (distinct (tracks (dict_get (load_json_file (liked_file w)) a
                          \<lparr>tracks = [], last_seen = None\<rparr>))
        \<longrightarrow> (\<exists>doc e. liked_file (add_like env1 a tr w) = Some doc
                 \<and> doc (json_key a) = Some e
                 \<and> distinct (tracks e) \<and> count_list (tracks e) tr = 1
                 \<and> last_seen e = Some (utc_now env1))
            \<and> (\<exists>doc e. liked_file (add_like env2 a tr (add_like env1 a tr w)) = Some doc
                 \<and> doc (json_key a) = Some e
                 \<and> distinct (tracks e) \<and> count_list (tracks e) tr = 1
                 \<and> last_seen e = Some (utc_now env2)))
   \<and> (distinct (tracks (dict_get (load_json_file (disliked_file w)) a
                          \<lparr>tracks = [], last_seen = None, ban_artist = False\<rparr>))
        \<longrightarrow> (\<exists>doc e. disliked_file (add_dislike env1 a tr ban w) = Some doc
                 \<and> doc (json_key a) = Some e
                 \<and> distinct (tracks e) \<and> count_list (tracks e) tr = 1
                 \<and> last_seen e = Some (utc_now env1))
            \<and> (\<exists>doc e. disliked_file (add_dislike env2 a tr ban (add_dislike env1 a tr ban w))
                          = Some doc
                 \<and> doc (json_key a) = Some e
                 \<and> distinct (tracks e) \<and> count_list (tracks e) tr = 1
                 \<and> last_seen e = Some (utc_now env2)))"
proof (intro impI conjI; elim conjE)
  assume s: "save_result env1 = Saved" "save_result env2 = Saved"
    and d: "distinct (tracks (dict_get (load_json_file (liked_file w)) a
                          \<lparr>tracks = [], last_seen = None\<rparr>))"
  let ?old = "tracks (dict_get (load_json_file (liked_file w)) a \<lparr>tracks = [], last_seen = None\<rparr>)"
  note once = append_new_once [OF d, of tr]
  show "\<exists>doc e. liked_file (add_like env1 a tr w) = Some doc
                 \<and> doc (json_key a) = Some e
                 \<and> distinct (tracks e) \<and> count_list (tracks e) tr = 1
                 \<and> last_seen e = Some (utc_now env1)"
    using s once by (simp add: add_like_def Let_def emit_def save_json_file_def)
  show "\<exists>doc e. liked_file (add_like env2 a tr (add_like env1 a tr w)) = Some doc
                 \<and> doc (json_key a) = Some e
                 \<and> distinct (tracks e) \<and> count_list (tracks e) tr = 1
                 \<and> last_seen e = Some (utc_now env2)"
    using s once
    by (cases a)
       (simp_all add: add_like_def Let_def emit_def save_json_file_def load_json_file_def
          dict_get_def append_new_def)
next
  assume s: "save_result env1 = Saved" "save_result env2 = Saved"
    and d: "distinct (tracks (dict_get (load_json_file (disliked_file w)) a
                          \<lparr>tracks = [], last_seen = None, ban_artist = False\<rparr>))"
  note once = append_new_once [OF d, of tr]
  show "\<exists>doc e. disliked_file (add_dislike env1 a tr ban w) = Some doc
                 \<and> doc (json_key a) = Some e
                 \<and> distinct (tracks e) \<and> count_list (tracks e) tr = 1
                 \<and> last_seen e = Some (utc_now env1)"
    using s once by (simp add: add_dislike_def Let_def emit_def save_json_file_def)
  show "\<exists>doc e. disliked_file (add_dislike env2 a tr ban (add_dislike env1 a tr ban w))
                          = Some doc
                 \<and> doc (json_key a) = Some e
                 \<and> distinct (tracks e) \<and> count_list (tracks e) tr = 1
                 \<and> last_seen e = Some (utc_now env2)"
    using s once
    by (cases a)
       (simp_all add: add_dislike_def Let_def emit_def save_json_file_def load_json_file_def
          dict_get_def append_new_def)
qed

text \<open>
  C10. A harvest worker whose snapshot has no rating key, or an empty one, returns the
  world as it got it: no request, no write. The poller gives a session the composite id
  of artist and title exactly when the element has no such key, and the snapshot it
  stores then has none either, so the worker of such a session does nothing.
\<close>

theorem harvest_without_rating_key:
  "(\<not> truthy (ratingKey snap)
      \<longrightarrow> harvest_final_rating_for_finished_track env sid snap w = w)
   \<and> (\<not> truthy (el_ratingKey el)
      \<longrightarrow> session_id_of el = py_str (el_grandparentTitle el) @ ''-'' @ py_str (el_title el)
          \<and> harvest_final_rating_for_finished_track env (session_id_of el) (snapshot_of el) w = w)
   \<and> (truthy (el_ratingKey el) \<longrightarrow> session_id_of el = or_empty (el_ratingKey el))"
  by (simp add: harvest_final_rating_for_finished_track_def session_id_of_def snapshot_of_def)

lemma later_env_simps:
  "save_result later_env = Saved" "utc_now later_env = ''2026-01-02T00:00:00+00:00''"
  by (simp_all add: later_env_def silent_env_def)

lemma sample_like_twice:
  "liked_file (add_like later_env (Some ''Boards of Canada'') (Some ''Roygbiv'')
       (add_like silent_env (Some ''Boards of Canada'') (Some ''Roygbiv'') world_liked))
     = Some (Map.empty(''Boards of Canada'' \<mapsto>
         \<lparr>tracks = [Some ''Olson'', Some ''Roygbiv''],
          last_seen = Some ''2026-01-02T00:00:00+00:00''\<rparr>))"
  by (simp add: add_like_def Let_def emit_def save_json_file_def load_json_file_def
        dict_get_def append_new_def world_liked_def empty_world_def env_rated_simps
        later_env_simps)

lemma sample_dislike_twice:
  "disliked_file (add_dislike later_env (Some ''Boards of Canada'') (Some ''Roygbiv'') False
       (add_dislike silent_env (Some ''Boards of Canada'') (Some ''Roygbiv'') False
          world_disliked))
     = Some (Map.empty(''Boards of Canada'' \<mapsto>
         \<lparr>tracks = [Some ''Olson'', Some ''Roygbiv''],
          last_seen = Some ''2026-01-02T00:00:00+00:00'', ban_artist = False\<rparr>))"
  by (simp add: add_dislike_def Let_def emit_def save_json_file_def load_json_file_def
        dict_get_def append_new_def world_disliked_def empty_world_def env_rated_simps
        later_env_simps)

theorem add_twice_one_occurrence_witness:
  "save_result silent_env = Saved \<and> save_result later_env = Saved
   \<and> distinct (tracks (dict_get (load_json_file (liked_file world_liked))
                  (Some ''Boards of Canada'') \<lparr>tracks = [], last_seen = None\<rparr>))
   \<and> distinct (tracks (dict_get (load_json_file (disliked_file world_disliked))
                  (Some ''Boards of Canada'')
                  \<lparr>tracks = [], last_seen = None, ban_artist = False\<rparr>))
   \<and> liked_file (add_like later_env (Some ''Boards of Canada'') (Some ''Roygbiv'')
         (add_like silent_env (Some ''Boards of Canada'') (Some ''Roygbiv'') world_liked))
      = Some (Map.empty(''Boards of Canada'' \<mapsto>
           \<lparr>tracks = [Some ''Olson'', Some ''Roygbiv''],
            last_seen = Some ''2026-01-02T00:00:00+00:00''\<rparr>))
   \<and> count_list [Some ''Olson'', Some ''Roygbiv''] (Some ''Roygbiv'') = 1
   \<and> disliked_file (add_dislike later_env (Some ''Boards of Canada'') (Some ''Roygbiv'') False
         (add_dislike silent_env (Some ''Boards of Canada'') (Some ''Roygbiv'') False
            world_disliked))
      = Some (Map.empty(''Boards of Canada'' \<mapsto>
           \<lparr>tracks = [Some ''Olson'', Some ''Roygbiv''],
            last_seen = Some ''2026-01-02T00:00:00+00:00'', ban_artist = False\<rparr>))"
proof -
  have s: "save_result silent_env = Saved \<and> save_result later_env = Saved"
    by (simp add: env_rated_simps later_env_simps)
  have dl: "distinct (tracks (dict_get (load_json_file (liked_file world_liked))
                  (Some ''Boards of Canada'') \<lparr>tracks = [], last_seen = None\<rparr>))"
    by (simp add: world_liked_def empty_world_def load_json_file_def dict_get_def)
  have dd: "distinct (tracks (dict_get (load_json_file (disliked_file world_disliked))
                  (Some ''Boards of Canada'')
                  \<lparr>tracks = [], last_seen = None, ban_artist = False\<rparr>))"
    by (simp add: world_disliked_def empty_world_def load_json_file_def dict_get_def)
  from add_twice_one_occurrence [where ?env1.0 = silent_env and ?env2.0 = later_env
      and a = "Some ''Boards of Canada''" and tr = "Some ''Roygbiv''" and w = world_liked] s dl
  obtain doc e where
    "liked_file (add_like later_env (Some ''Boards of Canada'') (Some ''Roygbiv'')
         (add_like silent_env (Some ''Boards of Canada'') (Some ''Roygbiv'') world_liked))
      = Some doc"
    and "doc (json_key (Some ''Boards of Canada'')) = Some e"
    and "count_list (tracks e) (Some ''Roygbiv'') = 1"
    by blast
  then have c: "count_list [Some ''Olson'', Some ''Roygbiv''] (Some ''Roygbiv'') = 1"
    by (auto simp: sample_like_twice)
  from s dl dd c show ?thesis
    by (simp only: sample_like_twice sample_dislike_twice simp_thms)
qed

lemma sample_composite:
  "session_id_of (el_roygbiv\<lparr>el_ratingKey := None\<rparr>) = ''Boards of Canada-Roygbiv''"
  "session_id_of (el_roygbiv\<lparr>el_ratingKey := Some []\<rparr>) = ''Boards of Canada-Roygbiv''"
  "session_id_of el_roygbiv = ''123''"
  by (simp_all add: session_id_of_def el_roygbiv_def)

lemma sample_lookup_rated:
  "lidarr_track_lookup_multi env_rated (Some ''Boards of Canada'') (Some ''Roygbiv'') None None w
    = (Inr (Some \<lparr>match_id = 7, match_title = Some ''Roygbiv'',
                   match_artistName = Some ''Boards of Canada''\<rparr>),
       w\<lparr>trace := trace w @ [Lidarr_search ''Boards of Canada Roygbiv'']\<rparr>)"
  by (simp add: lidarr_track_lookup_multi_def env_rated_simps sample_terms sample_lower
        py_lower_Nil sample_found emit_def)

lemma sample_metadata:
  "plex_metadata env_rated ''123''
     = Plex_response 200 (Xml [el_roygbiv\<lparr>el_userRating := Numeric (Finite 1)\<rparr>])"
  by (simp add: env_rated_def)

lemma sample_harvest_steps:
  "harvest_final_rating_for_finished_track env_rated ''123'' (snapshot_of el_roygbiv) w
     = snd (purge_with_lidarr env_rated (Some ''Boards of Canada'') (Some ''Roygbiv'') None None
         (add_dislike env_rated (Some ''Boards of Canada'') (Some ''Roygbiv'') False
            (emit (Plex_metadata ''123'') w)))"
  by (cases "purge_with_lidarr env_rated (Some ''Boards of Canada'') (Some ''Roygbiv'') None None
         (add_dislike env_rated (Some ''Boards of Canada'') (Some ''Roygbiv'') False
            (emit (Plex_metadata ''123'') w))")
     (simp add: harvest_final_rating_for_finished_track_def snapshot_of_def el_roygbiv_def
        sample_metadata act_on_rating_def Let_def split: sum.splits)

lemma sample_harvest:
  "trace (harvest_final_rating_for_finished_track env_rated ''123'' (snapshot_of el_roygbiv)
            empty_world)
     = [Plex_metadata ''123'', File_save DISLIKED_PATH,
        Lidarr_search ''Boards of Canada Roygbiv'', Lidarr_delete 7]"
  by (simp add: sample_harvest_steps purge_trace sample_lookup_rated add_dislike_files
        emit_def empty_world_def)

theorem harvest_without_rating_key_witness:
  "\<not> truthy (ratingKey (snapshot_of (el_roygbiv\<lparr>el_ratingKey := None\<rparr>)))
   \<and> session_id_of (el_roygbiv\<lparr>el_ratingKey := None\<rparr>) = ''Boards of Canada-Roygbiv''
   \<and> harvest_final_rating_for_finished_track env_rated ''Boards of Canada-Roygbiv''
        (snapshot_of (el_roygbiv\<lparr>el_ratingKey := None\<rparr>)) empty_world = empty_world
   \<and> \<not> truthy (ratingKey (snapshot_of (el_roygbiv\<lparr>el_ratingKey := Some []\<rparr>)))
   \<and> harvest_final_rating_for_finished_track env_rated ''Boards of Canada-Roygbiv''
        (snapshot_of (el_roygbiv\<lparr>el_ratingKey := Some []\<rparr>)) empty_world = empty_world
   \<and> trace (harvest_final_rating_for_finished_track env_rated ''123'' (snapshot_of el_roygbiv)
            empty_world)
      = [Plex_metadata ''123'', File_save DISLIKED_PATH,
         Lidarr_search ''Boards of Canada Roygbiv'', Lidarr_delete 7]"
proof -
  have n: "\<not> truthy (el_ratingKey (el_roygbiv\<lparr>el_ratingKey := None\<rparr>))"
    and e: "\<not> truthy (el_ratingKey (el_roygbiv\<lparr>el_ratingKey := Some []\<rparr>))" by simp_all
  from harvest_without_rating_key [where el = "el_roygbiv\<lparr>el_ratingKey := None\<rparr>"
      and env = env_rated and w = empty_world] n
  have a: "harvest_final_rating_for_finished_track env_rated
      (session_id_of (el_roygbiv\<lparr>el_ratingKey := None\<rparr>))
      (snapshot_of (el_roygbiv\<lparr>el_ratingKey := None\<rparr>)) empty_world = empty_world" by blast
  from harvest_without_rating_key [where el = "el_roygbiv\<lparr>el_ratingKey := Some []\<rparr>"
      and env = env_rated and w = empty_world] e
  have b: "harvest_final_rating_for_finished_track env_rated
      (session_id_of (el_roygbiv\<lparr>el_ratingKey := Some []\<rparr>))
      (snapshot_of (el_roygbiv\<lparr>el_ratingKey := Some []\<rparr>)) empty_world = empty_world" by blast
  from a b show ?thesis
    by (simp add: sample_composite sample_harvest) (simp add: snapshot_of_def)
qed

section \<open>Properties of the watcher\<close>

lemma poll_keeps:
  "launched (poll_plex_sessions r s) = launched s
   \<and> FINISHED_ALREADY_SCHEDULED (poll_plex_sessions r s) = FINISHED_ALREADY_SCHEDULED s
   \<and> watcher_at (poll_plex_sessions r s) = watcher_at s
   \<and> scan_items (poll_plex_sessions r s) = scan_items s"
  by (simp add: poll_plex_sessions_def Let_def split: plex_reply.splits xml_body.splits)

lemma step_inv: "sched_inv s \<Longrightarrow> sched_inv (step a s)"
proof (cases a)
  case (Poll r)
  assume "sched_inv s"
  then show ?thesis using Poll poll_keeps [of r s] by (simp add: sched_inv_def)
next
  case (Store e snap)
  assume "sched_inv s"
  then show ?thesis using Store by (simp add: sched_inv_def)
next
  case (Watch ok)
  assume inv: "sched_inv s"
  show ?thesis
  proof (cases "watcher_at s")
    case Sleeping
    with inv Watch show ?thesis by (simp add: sched_inv_def watcher_step_def)
  next
    case (Started session_id)
    with inv Watch show ?thesis by (auto simp: sched_inv_def watcher_step_def)
  next
    case Scanning
    show ?thesis
    proof (cases "scan_items s")
      case Nil
      with inv Watch Scanning show ?thesis by (simp add: sched_inv_def watcher_step_def)
    next
      case (Cons item rest)
      with inv Watch Scanning show ?thesis
        by (auto simp: sched_inv_def watcher_step_def)
    qed
  qed
qed

lemma run_inv: "sched_inv s \<Longrightarrow> sched_inv (run schedule s)"
  unfolding run_def by (induction schedule arbitrary: s) (simp_all add: step_inv)

lemma startup_inv: "sched_inv startup"
  by (simp add: sched_inv_def startup_def)

lemma step_launched_grows: "set (launched s) \<subseteq> set (launched (step a s))"
proof (cases a)
  case (Poll r)
  then show ?thesis using poll_keeps [of r s] by simp
next
  case (Store e snap)
  then show ?thesis by simp
next
  case (Watch ok)
  then show ?thesis
    by (auto simp: watcher_step_def split: watcher_pc.splits list.splits)
qed

lemma run_launched_grows: "set (launched s) \<subseteq> set (launched (run schedule s))"
  unfolding run_def
proof (induction schedule arbitrary: s)
  case Nil
  show ?case by simp
next
  case (Cons a schedule)
  have "set (launched s) \<subseteq> set (launched (step a s))" by (rule step_launched_grows)
  also have "\<dots> \<subseteq> set (launched (fold step schedule (step a s)))" by (rule Cons)
  finally show ?case by simp
qed

lemma run_append: "run (schedule @ later) s = run later (run schedule s)"
  by (simp add: run_def)

lemma one_occurrence:
  "distinct (map fst xs) \<Longrightarrow> k \<in> fst ` set xs \<Longrightarrow> length (filter (\<lambda>item. fst item = k) xs) = 1"
proof (induction xs)
  case Nil
  then show ?case by simp
next
  case (Cons x xs)
  show ?case
  proof (cases "fst x = k")
    case True
    with Cons.prems have "k \<notin> fst ` set xs" by auto
    then have "filter (\<lambda>item. fst item = k) xs = []" by (auto simp: filter_empty_conv)
    with True show ?thesis by simp
  next
    case False
    with Cons show ?thesis by auto
  qed
qed

text \<open>
  C1. Whatever the schedule of poller passes, single writes to the finished map and
  watcher steps, from the start of the process: no session id has two harvest threads;
  every id in the scheduled set has one; and once an id is in the scheduled set it has
  exactly one thread after any continuation of the schedule, also when the poller
  stores the id again between \<open>t.start()\<close> and the \<open>add\<close>.
\<close>

theorem each_session_launched_at_most_once:
  "distinct (map fst (launched (run schedule startup)))
   \<and> FINISHED_ALREADY_SCHEDULED (run schedule startup)
       \<subseteq> fst ` set (launched (run schedule startup))
   \<and> (session_id \<in> FINISHED_ALREADY_SCHEDULED (run schedule startup)
       \<longrightarrow> length (filter (\<lambda>item. fst item = session_id)
                     (launched (run (schedule @ later) startup))) = 1)"
proof (intro conjI impI)
  have inv: "sched_inv (run schedule startup)" by (rule run_inv [OF startup_inv])
  then show d: "distinct (map fst (launched (run schedule startup)))"
    by (simp add: sched_inv_def)
  from inv show sub: "FINISHED_ALREADY_SCHEDULED (run schedule startup)
       \<subseteq> fst ` set (launched (run schedule startup))"
    by (auto simp: sched_inv_def)
  assume "session_id \<in> FINISHED_ALREADY_SCHEDULED (run schedule startup)"
  with sub have "session_id \<in> fst ` set (launched (run schedule startup))" by blast
  moreover have "set (launched (run schedule startup))
      \<subseteq> set (launched (run (schedule @ later) startup))"
    unfolding run_append by (rule run_launched_grows)
  ultimately have m: "session_id \<in> fst ` set (launched (run (schedule @ later) startup))"
    by blast
  have "sched_inv (run (schedule @ later) startup)" by (rule run_inv [OF startup_inv])
  then have "distinct (map fst (launched (run (schedule @ later) startup)))"
    by (simp add: sched_inv_def)
  with m show "length (filter (\<lambda>item. fst item = session_id)
                     (launched (run (schedule @ later) startup))) = 1"
    by (rule one_occurrence [rotated])
qed

lemma sample_polled:
  "poll_plex_sessions (Plex_response 200 (Xml [])) (poll_plex_sessions (Plex_response 200 (Xml [el_roygbiv])) startup)
     = startup\<lparr>CURRENT_TRACKS := [(''123'', snapshot_of el_roygbiv)],
               RECENTLY_FINISHED := [(''123'', snapshot_of el_roygbiv)]\<rparr>"
  by (simp add: poll_plex_sessions_def see_track_def set_add_def finish_def sample_composite
        startup_def Let_def)

lemma sample_run:
  "run sample_schedule startup
     = startup\<lparr>CURRENT_TRACKS := [(''123'', snapshot_of el_roygbiv)],
               RECENTLY_FINISHED := [(''123'', snapshot_of el_over)],
               FINISHED_ALREADY_SCHEDULED := {''123''},
               scan_items := [], watcher_at := Scanning,
               launched := [(''123'', snapshot_of el_roygbiv)]\<rparr>"
  by (simp add: run_def sample_schedule_def sample_polled)
     (simp add: watcher_step_def startup_def)

lemma sample_run_later:
  "run (sample_schedule @ sample_later) startup
     = startup\<lparr>CURRENT_TRACKS := [(''123'', snapshot_of el_roygbiv)],
               RECENTLY_FINISHED := [(''123'', snapshot_of el_over)],
               FINISHED_ALREADY_SCHEDULED := {''123''},
               scan_items := [], watcher_at := Sleeping,
               launched := [(''123'', snapshot_of el_roygbiv)]\<rparr>"
  unfolding run_append sample_run
  by (simp add: run_def sample_later_def watcher_step_def startup_def)

theorem each_session_launched_at_most_once_witness:
  "''123'' \<in> FINISHED_ALREADY_SCHEDULED (run sample_schedule startup)
   \<and> RECENTLY_FINISHED (run (sample_schedule @ sample_later) startup)
      = [(''123'', snapshot_of el_over)]
   \<and> launched (run (sample_schedule @ sample_later) startup)
      = [(''123'', snapshot_of el_roygbiv)]
   \<and> length (filter (\<lambda>item. fst item = ''123'')
        (launched (run (sample_schedule @ sample_later) startup))) = 1"
proof -
  have m: "''123'' \<in> FINISHED_ALREADY_SCHEDULED (run sample_schedule startup)"
    by (simp add: sample_run)
  from each_session_launched_at_most_once [where schedule = sample_schedule
      and later = sample_later and session_id = "''123''"] m
  have "length (filter (\<lambda>item. fst item = ''123'')
        (launched (run (sample_schedule @ sample_later) startup))) = 1" by blast
  with m show ?thesis by (simp add: sample_run_later)
qed

section \<open>Properties of the poller\<close>













end
